theory Spec2Isabelle
  imports Main
begin

section \<open>Data model\<close>

text \<open>
  The persisted table \<^verbatim>\<open>TokenBlacklist\<close> (migrations: columns \<^verbatim>\<open>jti\<close> with a unique
  index, nullable \<^verbatim>\<open>userId\<close>, \<^verbatim>\<open>expiresAt\<close>, \<^verbatim>\<open>createdAt\<close>). Timestamps are
  milliseconds since the epoch, as a JavaScript \<^verbatim>\<open>Date\<close> holds them. The surrogate
  key \<^verbatim>\<open>id\<close> is generated by the data layer and read by no operation of
  \<^verbatim>\<open>tokenBlacklist.ts\<close>; every operation addresses a row by \<^verbatim>\<open>jti\<close>,
  \<^verbatim>\<open>userId\<close> or \<^verbatim>\<open>expiresAt\<close>, so the surrogate key is not carried here.
\<close>

record row =
  jti :: string
  userId :: "string option"
  expiresAt :: int
  createdAt :: int

text \<open>What a call of the data-access client can throw.\<close>

datatype prisma_error = ConnectionError | UniqueConstraintFailed | RecordNotFound | ValidationError

text \<open>
  What \<^verbatim>\<open>jwt.verify\<close> and \<^verbatim>\<open>jwt.sign\<close> can throw (\<open>PlainError\<close>: a plain
  \<^verbatim>\<open>Error\<close>, with its message).
\<close>

datatype jwt_error = TokenExpiredError | JsonWebTokenError string | NotBeforeError | PlainError string

text \<open>Lines written with \<^verbatim>\<open>console.log\<close> and \<^verbatim>\<open>console.error\<close>.\<close>

datatype log_line =
    LogTokenBlacklisted string
  | LogCleanedUp nat
  | LogRevoked nat string
  | LogCleared
  | LogStoreError string prisma_error
  | LogJwtFailed jwt_error
  | LogLogoutError prisma_error

text \<open>
  The world the service runs in: the rows of the table, the console, and a schedule of
  the outcomes of the coming calls to the store (\<open>True\<close>: that call fails before it
  reaches the table; an exhausted schedule means the store answers).
\<close>

record world =
  rows :: "row list"
  faults :: "bool list"
  console :: "log_line list"

record JwtPayload =
  p_id :: string
  p_email :: string
  p_role :: string
  p_jti :: "string option"
  p_iat :: "int option"
  p_exp :: "int option"

text \<open>
  What \<^verbatim>\<open>lib/jwt.ts\<close> imports: the three functions of the \<^verbatim>\<open>jsonwebtoken\<close> package
  it calls (signing and verification read the clock) and the two constants of
  \<^verbatim>\<open>helper/env\<close>.
\<close>

record jwt_imports =
  jwt_sign :: "JwtPayload \<Rightarrow> string \<Rightarrow> string \<Rightarrow> int \<Rightarrow> jwt_error + string"
  jwt_verify :: "string \<Rightarrow> string \<Rightarrow> int \<Rightarrow> jwt_error + JwtPayload"
  jwt_decode :: "string \<Rightarrow> jwt_error + JwtPayload option"
  JWT_SECRET :: string
  JWT_EXPIRY :: string

record ApiResponse =
  success :: bool
  statusCode :: nat
  message :: string
  errors :: "prisma_error option"

text \<open>A guard either answers the request itself or calls \<^verbatim>\<open>next()\<close> with \<^verbatim>\<open>req.user\<close> set.\<close>

datatype outcome = Rejected ApiResponse | Admitted JwtPayload

section \<open>The data-access client\<close>

definition console_log :: "log_line \<Rightarrow> world \<Rightarrow> world" where
  "console_log l w = w\<lparr>console := console w @ [l]\<rparr>"

definition store_call :: "world \<Rightarrow> bool \<times> world" where
  "store_call w =
     (case faults w of
        [] \<Rightarrow> (True, w)
      | f # fs \<Rightarrow> (\<not> f, w\<lparr>faults := fs\<rparr>))"

text \<open>
  \<^verbatim>\<open>new Date(ms)\<close>: the time value, or \<open>None\<close> for an Invalid Date, which is what the
  constructor gives beyond 8.64e15 milliseconds on either side of the epoch.
\<close>

definition new_Date :: "int \<Rightarrow> int option" where
  "new_Date ms =
     (if - 8640000000000000 \<le> ms \<and> ms \<le> 8640000000000000 then Some ms else None)"

text \<open>
  The client validates its arguments before it sends anything: an Invalid Date is
  refused with a validation error and the store is not called. The \<^verbatim>\<open>DATETIME(3)\<close>
  column of the migration holds the dates from the epoch to the end of the year 9999
  (253402300799 in seconds); what the store does with a valid date outside the range of
  the column depends on its settings and no statement below rests on it.
\<close>

definition prisma_create ::
    "int \<Rightarrow> string \<Rightarrow> int option \<Rightarrow> string option \<Rightarrow> world \<Rightarrow> (prisma_error + row) \<times> world" where
  "prisma_create now j d u w =
     (case d of
        None \<Rightarrow> (Inl ValidationError, w)
      | Some e \<Rightarrow>
          (case store_call w of
             (False, w1) \<Rightarrow> (Inl ConnectionError, w1)
           | (True, w1) \<Rightarrow>
               (case find (\<lambda>r. jti r = j) (rows w1) of
                  Some _ \<Rightarrow> (Inl UniqueConstraintFailed, w1)
                | None \<Rightarrow>
                    (let r = \<lparr>jti = j, userId = u, expiresAt = e, createdAt = now\<rparr>
                     in (Inr r, w1\<lparr>rows := rows w1 @ [r]\<rparr>)))))"

definition prisma_findUnique :: "string \<Rightarrow> world \<Rightarrow> (prisma_error + row option) \<times> world" where
  "prisma_findUnique j w =
     (case store_call w of
        (False, w1) \<Rightarrow> (Inl ConnectionError, w1)
      | (True, w1) \<Rightarrow> (Inr (find (\<lambda>r. jti r = j) (rows w1)), w1))"

definition prisma_delete :: "string \<Rightarrow> world \<Rightarrow> (prisma_error + row) \<times> world" where
  "prisma_delete j w =
     (case store_call w of
        (False, w1) \<Rightarrow> (Inl ConnectionError, w1)
      | (True, w1) \<Rightarrow>
          (case find (\<lambda>r. jti r = j) (rows w1) of
             None \<Rightarrow> (Inl RecordNotFound, w1)
           | Some r \<Rightarrow> (Inr r, w1\<lparr>rows := filter (\<lambda>r. jti r \<noteq> j) (rows w1)\<rparr>)))"

definition prisma_deleteMany :: "(row \<Rightarrow> bool) \<Rightarrow> world \<Rightarrow> (prisma_error + nat) \<times> world" where
  "prisma_deleteMany P w =
     (case store_call w of
        (False, w1) \<Rightarrow> (Inl ConnectionError, w1)
      | (True, w1) \<Rightarrow>
          (Inr (length (filter P (rows w1))),
           w1\<lparr>rows := filter (\<lambda>r. \<not> P r) (rows w1)\<rparr>))"

section \<open>tokenBlacklist.ts\<close>

text \<open>\<^verbatim>\<open>userId || null\<close>: an absent or empty owner is stored as null.\<close>

definition or_null :: "string option \<Rightarrow> string option" where
  "or_null u = (case u of None \<Rightarrow> None | Some s \<Rightarrow> (if s = [] then None else Some s))"

text \<open>
  An \<^verbatim>\<open>async\<close> function yields a promise: rejected (\<open>Inl\<close>) or fulfilled (\<open>Inr\<close>).
  \<open>now\<close> is the clock at the call. The expiry handed to \<^verbatim>\<open>blacklistToken\<close> is the
  \<^verbatim>\<open>exp\<close> claim of a token, in whole seconds.
\<close>

definition blacklistToken ::
    "int \<Rightarrow> string \<Rightarrow> int \<Rightarrow> string option \<Rightarrow> world \<Rightarrow> (prisma_error + unit) \<times> world" where
  "blacklistToken now j expiresAt_s uid w =
     (case prisma_create now j (new_Date (expiresAt_s * 1000)) (or_null uid) w of
        (Inr _, w1) \<Rightarrow> (Inr (), console_log (LogTokenBlacklisted j) w1)
      | (Inl e, w1) \<Rightarrow>
          (Inl e, console_log (LogStoreError ''[TokenBlacklist] Error adding token to blacklist:'' e) w1))"

definition isJtiBlacklisted :: "int \<Rightarrow> string \<Rightarrow> world \<Rightarrow> (prisma_error + bool) \<times> world" where
  "isJtiBlacklisted now j w =
     (case prisma_findUnique j w of
        (Inl e, w1) \<Rightarrow>
          (Inr False, console_log (LogStoreError ''[TokenBlacklist] Error checking token blacklist:'' e) w1)
      | (Inr None, w1) \<Rightarrow> (Inr False, w1)
      | (Inr (Some blacklistedToken), w1) \<Rightarrow>
          (if now > expiresAt blacklistedToken then
             (case prisma_delete j w1 of
                (Inl e, w2) \<Rightarrow>
                  (Inr False,
                   console_log (LogStoreError ''[TokenBlacklist] Error checking token blacklist:'' e) w2)
              | (Inr _, w2) \<Rightarrow> (Inr False, w2))
           else (Inr True, w1)))"

definition cleanupExpiredTokens :: "int \<Rightarrow> world \<Rightarrow> (prisma_error + unit) \<times> world" where
  "cleanupExpiredTokens now w =
     (case prisma_deleteMany (\<lambda>r. expiresAt r < now) w of
        (Inl e, w1) \<Rightarrow>
          (Inr (), console_log (LogStoreError ''[TokenBlacklist] Error during cleanup:'' e) w1)
      | (Inr count, w1) \<Rightarrow>
          (Inr (), if count > 0 then console_log (LogCleanedUp count) w1 else w1))"

definition revokeUserTokens :: "string \<Rightarrow> world \<Rightarrow> (prisma_error + nat) \<times> world" where
  "revokeUserTokens uid w =
     (case prisma_deleteMany (\<lambda>r. userId r = Some uid) w of
        (Inl e, w1) \<Rightarrow>
          (Inr 0, console_log (LogStoreError ''[TokenBlacklist] Error revoking user tokens:'' e) w1)
      | (Inr count, w1) \<Rightarrow> (Inr count, console_log (LogRevoked count uid) w1))"

definition clearBlacklist :: "world \<Rightarrow> (prisma_error + unit) \<times> world" where
  "clearBlacklist w =
     (case prisma_deleteMany (\<lambda>r. True) w of
        (Inl e, w1) \<Rightarrow>
          (Inr (), console_log (LogStoreError ''[TokenBlacklist] Error clearing blacklist:'' e) w1)
      | (Inr _, w1) \<Rightarrow> (Inr (), console_log LogCleared w1))"

section \<open>jwt.ts\<close>


definition verifyToken :: "jwt_imports \<Rightarrow> int \<Rightarrow> string \<Rightarrow> world \<Rightarrow> JwtPayload option \<times> world" where
  "verifyToken L now token w =
     (case jwt_verify L token (JWT_SECRET L) now of
        Inr decoded \<Rightarrow> (Some decoded, w)
      | Inl e \<Rightarrow> (None, console_log (LogJwtFailed e) w))"

definition decodeToken :: "jwt_imports \<Rightarrow> string \<Rightarrow> JwtPayload option" where
  "decodeToken L token = (case jwt_decode L token of Inr decoded \<Rightarrow> decoded | Inl _ \<Rightarrow> None)"

text \<open>\<^verbatim>\<open>decoded?.exp || null\<close>: an absent claim and the falsy value \<open>0\<close> both give null.\<close>

definition getTokenExpiration :: "jwt_imports \<Rightarrow> string \<Rightarrow> int option" where
  "getTokenExpiration L token =
     (case decodeToken L token of
        None \<Rightarrow> None
      | Some decoded \<Rightarrow>
          (case p_exp decoded of None \<Rightarrow> None | Some e \<Rightarrow> (if e = 0 then None else Some e)))"

text \<open>\<^verbatim>\<open>decoded?.jti || null\<close>: an absent claim and the empty string both give null.\<close>

definition getTokenJti :: "jwt_imports \<Rightarrow> string \<Rightarrow> string option" where
  "getTokenJti L token =
     (case decodeToken L token of
        None \<Rightarrow> None
      | Some decoded \<Rightarrow>
          (case p_jti decoded of None \<Rightarrow> None | Some j \<Rightarrow> (if j = [] then None else Some j)))"

section \<open>The jsonwebtoken package\<close>

text \<open>
  The package as \<^verbatim>\<open>lib/jwt.ts\<close> calls it: \<^verbatim>\<open>sign\<close> with an object payload, a string
  secret and the option \<^verbatim>\<open>expiresIn\<close> alone, \<^verbatim>\<open>verify\<close> and \<^verbatim>\<open>decode\<close> with no option,
  so the algorithm is HS256. A token is header, payload and signature, joined by dots.
  The encodings are parameters: the encoded header, the encoding of a payload
  (base64url of its JSON text) with its decoding, the keyed hash of the signing input,
  which strings the package takes as a symmetric key (it refuses key material of
  another kind, such as a PEM private key, for HS256), and \<^verbatim>\<open>ms\<close>, the parser of time
  spans (whole milliseconds; \<open>None\<close> where it returns undefined). Only tokens under the
  HS256 header are covered: any other header is answered here as an invalid algorithm.
\<close>

record jws_primitives =
  header_b64 :: string
  payload_b64 :: "JwtPayload \<Rightarrow> string"
  payload_of :: "string \<Rightarrow> JwtPayload option"
  hs256 :: "string \<Rightarrow> string \<Rightarrow> string"
  symmetric_key :: "string \<Rightarrow> bool"
  ms :: "string \<Rightarrow> int option"

text \<open>\<^verbatim>\<open>s.split(d)\<close> for a one-character separator.\<close>

fun split_on :: "char \<Rightarrow> string \<Rightarrow> string list" where
  "split_on d [] = [[]]"
| "split_on d (c # cs) =
     (if c = d then [] # split_on d cs
      else (c # hd (split_on d cs)) # tl (split_on d cs))"






section \<open>apiResponse.ts\<close>

definition successResponse :: "string \<Rightarrow> ApiResponse" where
  "successResponse msg = \<lparr>success = True, statusCode = 200, message = msg, errors = None\<rparr>"

definition errorResponse :: "string \<Rightarrow> nat \<Rightarrow> prisma_error option \<Rightarrow> ApiResponse" where
  "errorResponse msg code errs = \<lparr>success = False, statusCode = code, message = msg, errors = errs\<rparr>"

section \<open>middleware/auth.ts\<close>

text \<open>\<^verbatim>\<open>s.split(' ')\<close>: the pieces between single spaces, empty pieces included.\<close>

fun split_space :: "string \<Rightarrow> string list" where
  "split_space [] = [[]]"
| "split_space (c # cs) =
     (if c = CHR '' '' then [] # split_space cs
      else (c # hd (split_space cs)) # tl (split_space cs))"

text \<open>\<^verbatim>\<open>payload.jti || ''\<close>\<close>

definition or_empty :: "string option \<Rightarrow> string" where
  "or_empty j = (case j of None \<Rightarrow> [] | Some s \<Rightarrow> s)"

text \<open>
  \<^verbatim>\<open>authMiddleware\<close> and \<^verbatim>\<open>requiredAdmin\<close> are the same text up to the list of roles
  and the message of the 403 answer; \<open>access_guard\<close> is that text with the two as
  parameters. The last \<open>Inl\<close> branch is the \<^verbatim>\<open>catch\<close> block: the only awaited promise of
  the \<^verbatim>\<open>try\<close> block is the one of \<^verbatim>\<open>isJtiBlacklisted\<close>.
\<close>

definition access_guard ::
    "string list \<Rightarrow> string \<Rightarrow> jwt_imports \<Rightarrow> int \<Rightarrow> string option \<Rightarrow> world \<Rightarrow> outcome \<times> world" where
  "access_guard roles denied L now authHeader w =
     (case authHeader of
        None \<Rightarrow> (Rejected (errorResponse ''Missing authorization header'' 401 None), w)
      | Some h \<Rightarrow>
          (if h = [] then (Rejected (errorResponse ''Missing authorization header'' 401 None), w)
           else
             (case split_space h of
                [p0, token] \<Rightarrow>
                  (if p0 \<noteq> ''Bearer'' then
                     (Rejected (errorResponse
                        ''Invalid authorization header format. Expected: Bearer <token>'' 401 None), w)
                   else
                     (case verifyToken L now token w of
                        (None, w1) \<Rightarrow>
                          (Rejected (errorResponse ''Invalid or expired token'' 401 None), w1)
                      | (Some payload, w1) \<Rightarrow>
                          (case isJtiBlacklisted now (or_empty (p_jti payload)) w1 of
                             (Inr isBlacklisted, w2) \<Rightarrow>
                               (if isBlacklisted then
                                  (Rejected (errorResponse
                                     ''Token has been revoked. Please login again.'' 401 None), w2)
                                else if p_role payload = [] \<or> p_role payload \<notin> set roles then
                                  (Rejected (errorResponse denied 403 None), w2)
                                else (Admitted payload, w2))
                           | (Inl error, w2) \<Rightarrow>
                               (Rejected (errorResponse ''Authentication error'' 500 (Some error)), w2))))
              | _ \<Rightarrow>
                  (Rejected (errorResponse
                     ''Invalid authorization header format. Expected: Bearer <token>'' 401 None), w))))"

definition authMiddleware :: "jwt_imports \<Rightarrow> int \<Rightarrow> string option \<Rightarrow> world \<Rightarrow> outcome \<times> world" where
  "authMiddleware =
     access_guard [''admin'', ''operator'']
       ''Insufficient permissions. Only users can access this resource.''"

definition requiredAdmin :: "jwt_imports \<Rightarrow> int \<Rightarrow> string option \<Rightarrow> world \<Rightarrow> outcome \<times> world" where
  "requiredAdmin =
     access_guard [''admin'']
       ''Insufficient permissions. Only admin can access this resource.''"

text \<open>The result is \<^verbatim>\<open>req.user\<close> at the call of \<^verbatim>\<open>next()\<close>.\<close>

definition optionalAuthMiddleware ::
    "jwt_imports \<Rightarrow> int \<Rightarrow> string option \<Rightarrow> world \<Rightarrow> JwtPayload option \<times> world" where
  "optionalAuthMiddleware L now authHeader w =
     (case authHeader of
        None \<Rightarrow> (None, w)
      | Some h \<Rightarrow>
          (if h = [] then (None, w)
           else
             (case split_space h of
                [p0, token] \<Rightarrow>
                  (if p0 = ''Bearer'' then
                     (case verifyToken L now token w of
                        (None, w1) \<Rightarrow> (None, w1)
                      | (Some payload, w1) \<Rightarrow>
                          (case isJtiBlacklisted now (or_empty (p_jti payload)) w1 of
                             (Inr isBlacklisted, w2) \<Rightarrow>
                               (if \<not> isBlacklisted then Some payload else None, w2)
                           | (Inl _, w2) \<Rightarrow> (None, w2)))
                   else (None, w))
              | _ \<Rightarrow> (None, w))))"

section \<open>routes/auth.ts: POST /logout\<close>

text \<open>
  The handler behind \<^verbatim>\<open>authMiddleware\<close>. \<^verbatim>\<open>authHeader.split(' ')[1]\<close> is undefined
  when the header has no space; an undefined token decodes to null, so both getters give
  null and the insert is skipped.
\<close>

definition logout_handler ::
    "jwt_imports \<Rightarrow> int \<Rightarrow> string option \<Rightarrow> JwtPayload option \<Rightarrow> world \<Rightarrow> ApiResponse \<times> world" where
  "logout_handler L now authHeader user w =
     (let uid = map_option p_id user in
      case authHeader of
        None \<Rightarrow> (successResponse ''Logout successful'', w)
      | Some h \<Rightarrow>
          (if h = [] then (successResponse ''Logout successful'', w)
           else
             (case split_space h of
                _ # token # _ \<Rightarrow>
                  (case (getTokenJti L token, getTokenExpiration L token) of
                     (Some j, Some expiration) \<Rightarrow>
                       (case blacklistToken now j expiration uid w of
                          (Inr _, w1) \<Rightarrow> (successResponse ''Logout successful'', w1)
                        | (Inl error, w1) \<Rightarrow>
                            (errorResponse ''Logout failed'' 500 (Some error),
                             console_log (LogLogoutError error) w1))
                   | _ \<Rightarrow> (successResponse ''Logout successful'', w))
              | _ \<Rightarrow> (successResponse ''Logout successful'', w))))"

definition logout_route ::
    "jwt_imports \<Rightarrow> int \<Rightarrow> string option \<Rightarrow> world \<Rightarrow> ApiResponse \<times> world" where
  "logout_route L now authHeader w =
     (case authMiddleware L now authHeader w of
        (Rejected r, w1) \<Rightarrow> (r, w1)
      | (Admitted payload, w1) \<Rightarrow> logout_handler L now authHeader (Some payload) w1)"

section \<open>Worlds the service can be in\<close>

text \<open>
  The table starts empty and is touched only through the operations above:
  \<^verbatim>\<open>blacklistToken\<close> has one call site, the logout handler. The console and the
  coming faults are the environment's.
\<close>

inductive reachable :: "world \<Rightarrow> bool" where
  start: "rows w = [] \<Longrightarrow> reachable w"
| environment: "reachable w \<Longrightarrow> rows w' = rows w \<Longrightarrow> reachable w'"
| guard: "reachable w \<Longrightarrow> reachable (snd (access_guard roles denied L now h w))"
| optional_guard: "reachable w \<Longrightarrow> reachable (snd (optionalAuthMiddleware L now h w))"
| logout: "reachable w \<Longrightarrow> reachable (snd (logout_route L now h w))"
| cleanup: "reachable w \<Longrightarrow> reachable (snd (cleanupExpiredTokens now w))"
| revoke_user: "reachable w \<Longrightarrow> reachable (snd (revokeUserTokens uid w))"
| clear: "reachable w \<Longrightarrow> reachable (snd (clearBlacklist w))"

section \<open>Notions used in the statements\<close>

text \<open>The store answers the next \<open>n\<close> calls.\<close>

definition store_answers :: "nat \<Rightarrow> world \<Rightarrow> bool" where
  "store_answers n w = (True \<notin> set (take n (faults w)))"

text \<open>The next call to the store fails.\<close>

definition next_call_fails :: "world \<Rightarrow> bool" where
  "next_call_fails w = (case faults w of [] \<Rightarrow> False | f # _ \<Rightarrow> f)"

text \<open>The number of rows whose expiry is before \<open>now\<close>.\<close>

definition expired_count :: "int \<Rightarrow> world \<Rightarrow> nat" where
  "expired_count now w = length (filter (\<lambda>r. expiresAt r < now) (rows w))"



text \<open>The header \<^verbatim>\<open>Authorization: Bearer <token>\<close>.\<close>

definition bearer :: "string \<Rightarrow> string" where
  "bearer token = ''Bearer '' @ token"

section \<open>Sample data\<close>

text \<open>
  A stand-in for the \<^verbatim>\<open>jsonwebtoken\<close> package that knows four tokens, used to run
  the statements below on concrete requests. Claims carry seconds, the clock milliseconds.
\<close>

definition demo_admin :: JwtPayload where
  "demo_admin =
     \<lparr>p_id = ''u1'', p_email = ''admin@kitapandu.id'', p_role = ''admin'',
      p_jti = Some ''jti-admin'', p_iat = Some 1000, p_exp = Some 2000\<rparr>"

definition demo_operator :: JwtPayload where
  "demo_operator =
     \<lparr>p_id = ''u2'', p_email = ''operator@kitapandu.id'', p_role = ''operator'',
      p_jti = Some ''jti-op'', p_iat = Some 1000, p_exp = Some 3000\<rparr>"

definition demo_legacy :: JwtPayload where
  "demo_legacy =
     \<lparr>p_id = ''u3'', p_email = ''legacy@kitapandu.id'', p_role = ''operator'',
      p_jti = None, p_iat = Some 1000, p_exp = Some 3000\<rparr>"

definition or_zero :: "int option \<Rightarrow> int" where
  "or_zero e = (case e of None \<Rightarrow> 0 | Some n \<Rightarrow> n)"

definition demo_claims :: "string \<Rightarrow> JwtPayload option" where
  "demo_claims token =
     (if token = ''tok-admin'' then Some demo_admin
      else if token = ''tok-op'' then Some demo_operator
      else if token = ''tok-legacy'' then Some demo_legacy
      else None)"

definition demo_jwt :: jwt_imports where
  "demo_jwt =
     \<lparr>jwt_sign = (\<lambda>claims secret expiry now.
        if p_role claims = ''admin'' then Inr ''tok-admin'' else Inr ''tok-op''),
      jwt_verify = (\<lambda>token secret now.
        if secret \<noteq> ''s3cret'' then Inl (JsonWebTokenError ''invalid signature'')
        else if token = ''tok-forged'' then Inl (JsonWebTokenError ''invalid signature'')
        else
          (case demo_claims token of
             None \<Rightarrow> Inl (JsonWebTokenError ''jwt malformed'')
           | Some claims \<Rightarrow>
               (if or_zero (p_exp claims) * 1000 \<le> now then Inl TokenExpiredError
                else Inr claims))),
      jwt_decode = (\<lambda>token. Inr (demo_claims token)),
      JWT_SECRET = ''s3cret'',
      JWT_EXPIRY = ''7d''\<rparr>"

text \<open>The same package with one more token: the admin's identifier, and no \<^verbatim>\<open>exp\<close>.\<close>

definition demo_noexp :: JwtPayload where
  "demo_noexp =
     \<lparr>p_id = ''u1'', p_email = ''admin@kitapandu.id'', p_role = ''admin'',
      p_jti = Some ''jti-admin'', p_iat = Some 1000, p_exp = None\<rparr>"

definition demo_jwt_noexp :: jwt_imports where
  "demo_jwt_noexp =
     demo_jwt
       \<lparr>jwt_verify := (\<lambda>token secret now.
          if token = ''tok-noexp'' \<and> secret = ''s3cret'' then Inr demo_noexp
          else jwt_verify demo_jwt token secret now),
        jwt_decode := (\<lambda>token.
          if token = ''tok-noexp'' then Inr (Some demo_noexp) else jwt_decode demo_jwt token)\<rparr>"

definition demo_row :: row where
  "demo_row = \<lparr>jti = ''jti-admin'', userId = Some ''u1'', expiresAt = 2000000, createdAt = 1500000\<rparr>"

definition demo_row_op :: row where
  "demo_row_op = \<lparr>jti = ''jti-op'', userId = Some ''u2'', expiresAt = 3000000, createdAt = 1500000\<rparr>"

definition demo_world :: world where
  "demo_world = \<lparr>rows = [demo_row, demo_row_op], faults = [], console = []\<rparr>"

definition demo_outage :: world where
  "demo_outage = \<lparr>rows = [demo_row], faults = [True], console = []\<rparr>"

definition demo_flaky :: world where
  "demo_flaky = \<lparr>rows = [demo_row], faults = [False, True], console = []\<rparr>"



definition empty_world :: world where
  "empty_world = \<lparr>rows = [], faults = [], console = []\<rparr>"



definition tag :: "string option \<Rightarrow> string" where
  "tag x = (case x of None \<Rightarrow> ''n'' | Some s \<Rightarrow> CHR ''s'' # s)"

definition untag :: "string \<Rightarrow> string option" where
  "untag t = (case t of [] \<Rightarrow> None | x # xs \<Rightarrow> (if x = CHR ''s'' then Some xs else None))"

definition strokes :: "int \<Rightarrow> string" where
  "strokes i = (if i < 0 then CHR ''-'' else CHR ''+'') # replicate (nat \<bar>i\<bar>) CHR ''1''"

definition count_strokes :: "string \<Rightarrow> int" where
  "count_strokes t =
     (case t of [] \<Rightarrow> 0 | x # xs \<Rightarrow> (if x = CHR ''-'' then - int (length xs) else int (length xs)))"




lemmas demo_defs = demo_world_def demo_row_def demo_row_op_def demo_outage_def empty_world_def

section \<open>The store operations\<close>


lemma store_call_ok:
  "store_answers (Suc n) w \<Longrightarrow> store_call w = (True, w\<lparr>faults := tl (faults w)\<rparr>)"
  by (cases "faults w") (auto simp: store_call_def store_answers_def)

lemma store_answers_tl:
  "store_answers (Suc n) w \<Longrightarrow> store_answers n (w\<lparr>faults := tl (faults w), rows := rs\<rparr>)"
  "store_answers (Suc n) w \<Longrightarrow> store_answers n (w\<lparr>faults := tl (faults w)\<rparr>)"
  by (cases "faults w"; auto simp: store_answers_def)+

lemma store_call_fails:
  "next_call_fails w \<Longrightarrow> store_call w = (False, w\<lparr>faults := tl (faults w)\<rparr>)"
  by (cases "faults w") (auto simp: store_call_def next_call_fails_def)

lemma store_call_not_fails:
  "\<not> next_call_fails w \<Longrightarrow> store_call w = (True, w\<lparr>faults := tl (faults w)\<rparr>)"
  by (cases "faults w") (auto simp: store_call_def next_call_fails_def)

lemma find_jti_None: "find (\<lambda>r. jti r = j) rs = None \<longleftrightarrow> j \<notin> jti ` set rs"
  by (auto simp: find_None_iff)

lemma find_jti_Some:
  "distinct (map jti rs) \<Longrightarrow> find (\<lambda>r. jti r = j) rs = Some r \<longleftrightarrow> r \<in> set rs \<and> jti r = j"
  by (induction rs) (auto)


lemma findUnique_ok:
  "store_answers (Suc n) w \<Longrightarrow>
   prisma_findUnique j w = (Inr (find (\<lambda>r. jti r = j) (rows w)), w\<lparr>faults := tl (faults w)\<rparr>)"
  by (simp add: prisma_findUnique_def store_call_ok)

lemma delete_ok:
  "store_answers (Suc n) w \<Longrightarrow> find (\<lambda>r. jti r = j) (rows w) = Some r \<Longrightarrow>
   prisma_delete j w =
     (Inr r, w\<lparr>faults := tl (faults w), rows := filter (\<lambda>r. jti r \<noteq> j) (rows w)\<rparr>)"
  by (simp add: prisma_delete_def store_call_ok)

lemma isJtiBlacklisted_ok:
  assumes ok: "store_answers 2 w"
  shows "isJtiBlacklisted now j w =
     (case find (\<lambda>r. jti r = j) (rows w) of
        None \<Rightarrow> (Inr False, w\<lparr>faults := tl (faults w)\<rparr>)
      | Some r \<Rightarrow>
          (if now > expiresAt r then
             (Inr False, w\<lparr>faults := tl (tl (faults w)), rows := filter (\<lambda>r. jti r \<noteq> j) (rows w)\<rparr>)
           else (Inr True, w\<lparr>faults := tl (faults w)\<rparr>)))"
proof -
  from ok have ok1: "store_answers (Suc 1) w" by (simp add: numeral_2_eq_2)
  have ok2: "store_answers (Suc 0) (w\<lparr>faults := tl (faults w)\<rparr>)"
    using store_answers_tl(2) [OF ok1] by simp
  show ?thesis
  proof (cases "find (\<lambda>r. jti r = j) (rows w)")
    case None
    then show ?thesis by (simp add: isJtiBlacklisted_def findUnique_ok [OF ok1])
  next
    case (Some r)
    then have "find (\<lambda>r. jti r = j) (rows (w\<lparr>faults := tl (faults w)\<rparr>)) = Some r" by simp
    from delete_ok [OF ok2 this] Some show ?thesis
      by (simp add: isJtiBlacklisted_def findUnique_ok [OF ok1])
  qed
qed


lemma isJtiBlacklisted_answering:
  assumes ok: "store_answers 2 w" and uniq: "distinct (map jti (rows w))"
  shows "fst (isJtiBlacklisted now j w) = Inr (\<exists>r \<in> set (rows w). jti r = j \<and> \<not> now > expiresAt r)
       \<and> ((\<exists>r \<in> set (rows w). jti r = j \<and> now > expiresAt r) \<longrightarrow>
            fst (isJtiBlacklisted now j w) = Inr False
          \<and> j \<notin> jti ` set (rows (snd (isJtiBlacklisted now j w)))
          \<and> rows (snd (isJtiBlacklisted now j w)) = filter (\<lambda>r. jti r \<noteq> j) (rows w))
       \<and> (j \<notin> jti ` set (rows w) \<longrightarrow>
            fst (isJtiBlacklisted now j w) = Inr False
          \<and> rows (snd (isJtiBlacklisted now j w)) = rows w)"
proof (cases "find (\<lambda>r. jti r = j) (rows w)")
  case None
  then have absent: "j \<notin> jti ` set (rows w)" by (simp add: find_jti_None)
  then have no: "(\<exists>r \<in> set (rows w). jti r = j \<and> P r) = False" for P by blast
  have "isJtiBlacklisted now j w = (Inr False, w\<lparr>faults := tl (faults w)\<rparr>)"
    using None by (simp add: isJtiBlacklisted_ok [OF ok])
  then show ?thesis by (simp only: no fst_conv snd_conv) simp
next
  case (Some r)
  then have r: "r \<in> set (rows w)" "jti r = j" using find_jti_Some [OF uniq] by auto
  have only: "r' = r" if "r' \<in> set (rows w)" "jti r' = j" for r'
  proof -
    from that have "find (\<lambda>r. jti r = j) (rows w) = Some r'"
      by (simp add: find_jti_Some [OF uniq])
    with Some show ?thesis by simp
  qed
  have ex: "(\<exists>r' \<in> set (rows w). jti r' = j \<and> P r') = P r" for P
    using r only by blast
  have present: "j \<in> jti ` set (rows w)" using r by blast
  show ?thesis
  proof (cases "now > expiresAt r")
    case True
    then have "isJtiBlacklisted now j w =
        (Inr False, w\<lparr>faults := tl (tl (faults w)), rows := filter (\<lambda>r. jti r \<noteq> j) (rows w)\<rparr>)"
      using Some by (simp add: isJtiBlacklisted_ok [OF ok])
    moreover have "j \<notin> jti ` set (filter (\<lambda>r. jti r \<noteq> j) (rows w))" by auto
    ultimately show ?thesis using True present by (simp only: ex fst_conv snd_conv) simp
  next
    case False
    then have "isJtiBlacklisted now j w = (Inr True, w\<lparr>faults := tl (faults w)\<rparr>)"
      using Some by (simp add: isJtiBlacklisted_ok [OF ok])
    then show ?thesis using False present by (simp only: ex fst_conv snd_conv) simp
  qed
qed

lemma delete_fails:
  "next_call_fails w \<Longrightarrow> prisma_delete j w = (Inl ConnectionError, w\<lparr>faults := tl (faults w)\<rparr>)"
  by (simp add: prisma_delete_def store_call_def next_call_fails_def split: list.splits)

lemma isJtiBlacklisted_lookup_fails:
  "next_call_fails w \<Longrightarrow>
   fst (isJtiBlacklisted now j w) = Inr False \<and> rows (snd (isJtiBlacklisted now j w)) = rows w"
  by (simp add: isJtiBlacklisted_def prisma_findUnique_def store_call_def next_call_fails_def
      console_log_def split: list.splits)

lemma isJtiBlacklisted_delete_fails:
  assumes first: "\<not> next_call_fails w" and second: "next_call_fails (w\<lparr>faults := tl (faults w)\<rparr>)"
  shows "isJtiBlacklisted now j w =
     (case find (\<lambda>r. jti r = j) (rows w) of
        None \<Rightarrow> (Inr False, w\<lparr>faults := tl (faults w)\<rparr>)
      | Some r \<Rightarrow>
          (if now > expiresAt r then
             (Inr False,
              console_log (LogStoreError ''[TokenBlacklist] Error checking token blacklist:''
                ConnectionError) (w\<lparr>faults := tl (tl (faults w))\<rparr>))
           else (Inr True, w\<lparr>faults := tl (faults w)\<rparr>)))"
proof -
  have look: "prisma_findUnique j w =
      (Inr (find (\<lambda>r. jti r = j) (rows w)), w\<lparr>faults := tl (faults w)\<rparr>)"
    using first
    by (simp add: prisma_findUnique_def store_call_def next_call_fails_def split: list.splits)
  from delete_fails [OF second, of j]
  have del: "prisma_delete j (w\<lparr>faults := tl (faults w)\<rparr>) =
      (Inl ConnectionError, w\<lparr>faults := tl (tl (faults w))\<rparr>)"
    by simp
  show ?thesis
    by (simp add: isJtiBlacklisted_def look del split: option.splits)
qed

text \<open>
  Claim C2 as stated fails. With the store failing, the lookup reports false for an
  identifier whose row has not expired; and when only the delete fails, the lookup
  reports false for an expired row that is still there afterwards.
\<close>

theorem current_record_reported_not_revoked_on_fault:
  "demo_row \<in> set (rows demo_outage) \<and> jti demo_row = ''jti-admin''
   \<and> \<not> 1600000 > expiresAt demo_row
   \<and> fst (isJtiBlacklisted 1600000 ''jti-admin'' demo_outage) = Inr False
   \<and> demo_row \<in> set (rows demo_flaky) \<and> 2500000 > expiresAt demo_row
   \<and> fst (isJtiBlacklisted 2500000 ''jti-admin'' demo_flaky) = Inr False
   \<and> ''jti-admin'' \<in> jti ` set (rows (snd (isJtiBlacklisted 2500000 ''jti-admin'' demo_flaky)))"
  by (simp add: isJtiBlacklisted_def prisma_findUnique_def prisma_delete_def store_call_def
      console_log_def demo_defs demo_flaky_def)

text \<open>
  Claim C2, amended. While the store answers, \<^verbatim>\<open>isJtiBlacklisted\<close> reports true exactly
  when the table holds a row with that identifier whose expiry is not before the clock; a
  row that has expired is deleted by the lookup, which reports false, so that the
  identifier is absent afterwards and no other row is touched; with no row for the
  identifier the answer is false and the table is unchanged. When the lookup's call to
  the store fails the answer is false whatever the table holds, and when only the delete
  of an expired row fails the answer is false as well; in both cases the table is
  unchanged. (The unique index on \<^verbatim>\<open>jti\<close> is the hypothesis.)
\<close>

theorem isJtiBlacklisted_cases:
  assumes uniq: "distinct (map jti (rows w))"
  shows "(store_answers 2 w \<longrightarrow>
            fst (isJtiBlacklisted now j w) =
              Inr (\<exists>r \<in> set (rows w). jti r = j \<and> \<not> now > expiresAt r)
          \<and> ((\<exists>r \<in> set (rows w). jti r = j \<and> now > expiresAt r) \<longrightarrow>
               fst (isJtiBlacklisted now j w) = Inr False
             \<and> j \<notin> jti ` set (rows (snd (isJtiBlacklisted now j w)))
             \<and> rows (snd (isJtiBlacklisted now j w)) = filter (\<lambda>r. jti r \<noteq> j) (rows w))
          \<and> (j \<notin> jti ` set (rows w) \<longrightarrow>
               fst (isJtiBlacklisted now j w) = Inr False
             \<and> rows (snd (isJtiBlacklisted now j w)) = rows w))
       \<and> (next_call_fails w \<longrightarrow>
            fst (isJtiBlacklisted now j w) = Inr False
          \<and> rows (snd (isJtiBlacklisted now j w)) = rows w)
       \<and> (\<not> next_call_fails w \<and> next_call_fails (w\<lparr>faults := tl (faults w)\<rparr>) \<longrightarrow>
            fst (isJtiBlacklisted now j w) =
              Inr (\<exists>r \<in> set (rows w). jti r = j \<and> \<not> now > expiresAt r)
          \<and> rows (snd (isJtiBlacklisted now j w)) = rows w)"
proof -
  have third: "fst (isJtiBlacklisted now j w) =
        Inr (\<exists>r \<in> set (rows w). jti r = j \<and> \<not> now > expiresAt r)
      \<and> rows (snd (isJtiBlacklisted now j w)) = rows w"
    if first: "\<not> next_call_fails w" and second: "next_call_fails (w\<lparr>faults := tl (faults w)\<rparr>)"
  proof (cases "find (\<lambda>r. jti r = j) (rows w)")
    case None
    then have "(\<exists>r \<in> set (rows w). jti r = j \<and> \<not> now > expiresAt r) = False"
      by (auto simp: find_jti_None)
    with None show ?thesis
      by (simp add: isJtiBlacklisted_delete_fails [OF first second])
  next
    case (Some r)
    have only: "r' = r" if "r' \<in> set (rows w)" "jti r' = j" for r'
    proof -
      from that have "find (\<lambda>r. jti r = j) (rows w) = Some r'"
        by (simp add: find_jti_Some [OF uniq])
      with Some show ?thesis by simp
    qed
    from Some have "r \<in> set (rows w)" "jti r = j" using find_jti_Some [OF uniq] by auto
    with only have "(\<exists>r' \<in> set (rows w). jti r' = j \<and> \<not> now > expiresAt r') = (\<not> now > expiresAt r)"
      by blast
    with Some show ?thesis
      by (simp add: isJtiBlacklisted_delete_fails [OF first second] console_log_def)
  qed
  from isJtiBlacklisted_answering [OF _ uniq, of now j] isJtiBlacklisted_lookup_fails [of w now j] third
  show ?thesis by blast
qed

theorem isJtiBlacklisted_cases_witness:
  "distinct (map jti (rows demo_world)) \<and> store_answers 2 demo_world
   \<and> fst (isJtiBlacklisted 2500000 ''jti-op'' demo_world) = Inr True
   \<and> fst (isJtiBlacklisted 2500000 ''jti-admin'' demo_world) = Inr False
   \<and> rows (snd (isJtiBlacklisted 2500000 ''jti-admin'' demo_world)) = [demo_row_op]
   \<and> fst (isJtiBlacklisted 2500000 ''jti-nobody'' demo_world) = Inr False
   \<and> distinct (map jti (rows demo_outage)) \<and> next_call_fails demo_outage
   \<and> fst (isJtiBlacklisted 1600000 ''jti-admin'' demo_outage) = Inr False
   \<and> rows (snd (isJtiBlacklisted 1600000 ''jti-admin'' demo_outage)) = rows demo_outage
   \<and> distinct (map jti (rows demo_flaky)) \<and> \<not> next_call_fails demo_flaky
   \<and> next_call_fails (demo_flaky\<lparr>faults := tl (faults demo_flaky)\<rparr>)
   \<and> fst (isJtiBlacklisted 2500000 ''jti-admin'' demo_flaky) = Inr False
   \<and> rows (snd (isJtiBlacklisted 2500000 ''jti-admin'' demo_flaky)) = rows demo_flaky"
proof -
  have uniq: "distinct (map jti (rows demo_world))" "distinct (map jti (rows demo_outage))"
    "distinct (map jti (rows demo_flaky))"
    by (simp_all add: demo_defs demo_flaky_def)
  have st: "store_answers 2 demo_world" "next_call_fails demo_outage"
    "\<not> next_call_fails demo_flaky" "next_call_fails (demo_flaky\<lparr>faults := tl (faults demo_flaky)\<rparr>)"
    by (simp_all add: store_answers_def next_call_fails_def demo_defs demo_flaky_def)
  from isJtiBlacklisted_cases [OF uniq(1), of 2500000 "''jti-op''"] st(1)
  have a: "fst (isJtiBlacklisted 2500000 ''jti-op'' demo_world) = Inr True"
    by (simp add: demo_defs)
  from isJtiBlacklisted_cases [OF uniq(1), of 2500000 "''jti-admin''"] st(1)
  have b: "fst (isJtiBlacklisted 2500000 ''jti-admin'' demo_world) = Inr False"
    "rows (snd (isJtiBlacklisted 2500000 ''jti-admin'' demo_world)) = [demo_row_op]"
    by (simp_all add: demo_defs)
  from isJtiBlacklisted_cases [OF uniq(1), of 2500000 "''jti-nobody''"] st(1)
  have c: "fst (isJtiBlacklisted 2500000 ''jti-nobody'' demo_world) = Inr False"
    by (simp add: demo_defs)
  from isJtiBlacklisted_cases [OF uniq(2), of 1600000 "''jti-admin''"] st(2)
  have d: "fst (isJtiBlacklisted 1600000 ''jti-admin'' demo_outage) = Inr False"
    "rows (snd (isJtiBlacklisted 1600000 ''jti-admin'' demo_outage)) = rows demo_outage"
    by simp_all
  from isJtiBlacklisted_cases [OF uniq(3), of 2500000 "''jti-admin''"] st(3,4)
  have e: "fst (isJtiBlacklisted 2500000 ''jti-admin'' demo_flaky) = Inr False"
    "rows (snd (isJtiBlacklisted 2500000 ''jti-admin'' demo_flaky)) = rows demo_flaky"
    by (simp_all add: demo_defs demo_flaky_def)
  from uniq(1) st(1) a b c uniq(2) st(2) d uniq(3) st(3,4) e show ?thesis by (intro conjI)
qed


lemma deleteMany_ok:
  "\<not> next_call_fails w \<Longrightarrow>
   prisma_deleteMany P w =
     (Inr (length (filter P (rows w))),
      w\<lparr>faults := tl (faults w), rows := filter (\<lambda>r. \<not> P r) (rows w)\<rparr>)"
  by (simp add: prisma_deleteMany_def store_call_not_fails)

lemma deleteMany_fails:
  "next_call_fails w \<Longrightarrow> prisma_deleteMany P w = (Inl ConnectionError, w\<lparr>faults := tl (faults w)\<rparr>)"
  by (simp add: prisma_deleteMany_def store_call_fails)

lemma findUnique_fails:
  "next_call_fails w \<Longrightarrow> prisma_findUnique j w = (Inl ConnectionError, w\<lparr>faults := tl (faults w)\<rparr>)"
  by (simp add: prisma_findUnique_def store_call_fails)

lemma findUnique_not_fails:
  "\<not> next_call_fails w \<Longrightarrow>
   prisma_findUnique j w = (Inr (find (\<lambda>r. jti r = j) (rows w)), w\<lparr>faults := tl (faults w)\<rparr>)"
  by (simp add: prisma_findUnique_def store_call_not_fails)

lemma isJtiBlacklisted_fails:
  "next_call_fails w \<Longrightarrow>
   isJtiBlacklisted now j w =
     (Inr False,
      console_log (LogStoreError ''[TokenBlacklist] Error checking token blacklist:'' ConnectionError)
        (w\<lparr>faults := tl (faults w)\<rparr>))"
  by (simp add: isJtiBlacklisted_def findUnique_fails)

lemma isJtiBlacklisted_absent:
  assumes "j \<notin> jti ` set (rows w)"
  shows "fst (isJtiBlacklisted now j w) = Inr False \<and> rows (snd (isJtiBlacklisted now j w)) = rows w"
proof (cases "next_call_fails w")
  case True
  then show ?thesis by (simp add: isJtiBlacklisted_fails console_log_def)
next
  case False
  moreover from assms have "find (\<lambda>r. jti r = j) (rows w) = None" by (simp add: find_jti_None)
  ultimately show ?thesis by (simp add: isJtiBlacklisted_def findUnique_not_fails)
qed

text \<open>
  Claim C3. \<^verbatim>\<open>revokeUserTokens\<close> deletes exactly the rows owned by the given user and
  returns how many they were; every identifier that had such a row is reported as not
  revoked afterwards, so the call lifts revocations instead of adding any. When the
  store fails the promise is still fulfilled, with 0, and no row changes.
\<close>

theorem revokeUserTokens_deletes_owner_records:
  "fst (revokeUserTokens uid w) =
     Inr (if next_call_fails w then 0 else length (filter (\<lambda>r. userId r = Some uid) (rows w)))
   \<and> rows (snd (revokeUserTokens uid w)) =
       (if next_call_fails w then rows w else filter (\<lambda>r. userId r \<noteq> Some uid) (rows w))
   \<and> (distinct (map jti (rows w)) \<longrightarrow> \<not> next_call_fails w \<longrightarrow>
        (\<forall>r \<in> set (rows w). userId r = Some uid \<longrightarrow>
           fst (isJtiBlacklisted now (jti r) (snd (revokeUserTokens uid w))) = Inr False))"
proof (cases "next_call_fails w")
  case True
  then show ?thesis
    by (simp add: revokeUserTokens_def deleteMany_fails console_log_def)
next
  case False
  have after: "snd (revokeUserTokens uid w) =
      console_log (LogRevoked (length (filter (\<lambda>r. userId r = Some uid) (rows w))) uid)
        (w\<lparr>faults := tl (faults w), rows := filter (\<lambda>r. userId r \<noteq> Some uid) (rows w)\<rparr>)"
    and res: "fst (revokeUserTokens uid w) = Inr (length (filter (\<lambda>r. userId r = Some uid) (rows w)))"
    using False by (simp_all add: revokeUserTokens_def deleteMany_ok)
  have gone: "fst (isJtiBlacklisted now (jti r) (snd (revokeUserTokens uid w))) = Inr False"
    if uniq: "distinct (map jti (rows w))" and r: "r \<in> set (rows w)" "userId r = Some uid" for r
  proof -
    have "jti r \<notin> jti ` set (filter (\<lambda>r. userId r \<noteq> Some uid) (rows w))"
    proof
      assume "jti r \<in> jti ` set (filter (\<lambda>r. userId r \<noteq> Some uid) (rows w))"
      then obtain r' where r': "r' \<in> set (rows w)" "userId r' \<noteq> Some uid" "jti r' = jti r" by auto
      from uniq r(1) r'(1) r'(3) have "r' = r" by (simp add: distinct_map inj_on_def)
      with r(2) r'(2) show False by simp
    qed
    then have "jti r \<notin> jti ` set (rows (snd (revokeUserTokens uid w)))"
      by (simp add: after console_log_def)
    then show ?thesis using isJtiBlacklisted_absent by blast
  qed
  show ?thesis using False res gone by (simp add: after console_log_def)
qed

theorem revokeUserTokens_witness:
  "distinct (map jti (rows demo_world)) \<and> \<not> next_call_fails demo_world
   \<and> demo_row \<in> set (rows demo_world) \<and> userId demo_row = Some ''u1''
   \<and> fst (revokeUserTokens ''u1'' demo_world) = Inr 1
   \<and> rows (snd (revokeUserTokens ''u1'' demo_world)) = [demo_row_op]
   \<and> fst (isJtiBlacklisted 1600000 (jti demo_row) (snd (revokeUserTokens ''u1'' demo_world))) = Inr False
   \<and> fst (revokeUserTokens ''u1'' demo_outage) = Inr 0
   \<and> rows (snd (revokeUserTokens ''u1'' demo_outage)) = rows demo_outage"
proof -
  have up: "\<not> next_call_fails demo_world" "next_call_fails demo_outage"
    by (simp_all add: next_call_fails_def demo_defs)
  have uniq: "distinct (map jti (rows demo_world))"
    by (simp add: demo_defs)
  from revokeUserTokens_deletes_owner_records [of "''u1''" demo_world 1600000]
    revokeUserTokens_deletes_owner_records [of "''u1''" demo_outage 1600000]
  show ?thesis using up uniq by (simp add: demo_defs)
qed

lemma cleanup_ok:
  "\<not> next_call_fails w \<Longrightarrow>
   cleanupExpiredTokens now w =
     (Inr (),
      (w\<lparr>faults := tl (faults w), rows := filter (\<lambda>r. \<not> expiresAt r < now) (rows w),
         console := (if expired_count now w > 0 then console w @ [LogCleanedUp (expired_count now w)]
                     else console w)\<rparr>))"
  by (simp add: cleanupExpiredTokens_def deleteMany_ok console_log_def expired_count_def)

lemma cleanup_fails:
  "next_call_fails w \<Longrightarrow>
   cleanupExpiredTokens now w =
     (Inr (),
      (w\<lparr>faults := tl (faults w),
         console := console w @ [LogStoreError ''[TokenBlacklist] Error during cleanup:'' ConnectionError]\<rparr>))"
  by (simp add: cleanupExpiredTokens_def deleteMany_fails console_log_def)

lemma store_answers_2:
  "store_answers 2 w \<longleftrightarrow> \<not> next_call_fails w \<and> \<not> next_call_fails (w\<lparr>faults := tl (faults w)\<rparr>)"
  by (cases "faults w"; cases "tl (faults w)")
     (auto simp: store_answers_def next_call_fails_def numeral_2_eq_2)

text \<open>
  Claim C4 as stated fails: the value \<^verbatim>\<open>cleanupExpiredTokens\<close> returns is the same
  whether one row or none is removed, and a repeated call reports nothing, not a count of 0:
  the console still holds only the line of the first call.
\<close>

theorem cleanup_returns_no_count:
  "fst (cleanupExpiredTokens 2500000 demo_world) = fst (cleanupExpiredTokens 2500000 empty_world)
   \<and> length (rows demo_world) - length (rows (snd (cleanupExpiredTokens 2500000 demo_world))) = 1
   \<and> length (rows empty_world) - length (rows (snd (cleanupExpiredTokens 2500000 empty_world))) = 0
   \<and> console (snd (cleanupExpiredTokens 2500000 (snd (cleanupExpiredTokens 2500000 demo_world)))) =
       [LogCleanedUp 1]"
  by (simp add: cleanupExpiredTokens_def prisma_deleteMany_def store_call_def console_log_def demo_defs)

text \<open>
  Claim C4, amended. \<^verbatim>\<open>cleanupExpiredTokens\<close> always fulfils its promise and the promise
  carries no count. While the store answers it deletes exactly the rows whose expiry is
  before the clock, leaves the others as they are, and writes the number removed to the
  console only when that number is positive; a second call at the same instant removes
  nothing and writes nothing. When the store fails no row changes and the error is
  written to the console.
\<close>

theorem cleanupExpiredTokens_purges:
  "fst (cleanupExpiredTokens now w) = Inr ()
   \<and> (\<not> next_call_fails w \<longrightarrow>
        rows (snd (cleanupExpiredTokens now w)) = filter (\<lambda>r. \<not> expiresAt r < now) (rows w)
      \<and> console (snd (cleanupExpiredTokens now w)) =
          (if expired_count now w > 0 then console w @ [LogCleanedUp (expired_count now w)]
           else console w))
   \<and> (next_call_fails w \<longrightarrow>
        rows (snd (cleanupExpiredTokens now w)) = rows w
      \<and> console (snd (cleanupExpiredTokens now w)) =
          console w @ [LogStoreError ''[TokenBlacklist] Error during cleanup:'' ConnectionError])
   \<and> (store_answers 2 w \<longrightarrow>
        expired_count now (snd (cleanupExpiredTokens now w)) = 0
      \<and> rows (snd (cleanupExpiredTokens now (snd (cleanupExpiredTokens now w)))) =
          rows (snd (cleanupExpiredTokens now w))
      \<and> console (snd (cleanupExpiredTokens now (snd (cleanupExpiredTokens now w)))) =
          console (snd (cleanupExpiredTokens now w)))"
proof (cases "next_call_fails w")
  case True
  then have "\<not> store_answers 2 w" by (simp add: store_answers_2)
  with True show ?thesis by (simp add: cleanup_fails)
next
  case False
  let ?w1 = "snd (cleanupExpiredTokens now w)"
  have rows1: "rows ?w1 = filter (\<lambda>r. \<not> expiresAt r < now) (rows w)"
    and faults1: "faults ?w1 = tl (faults w)"
    using False by (simp_all add: cleanup_ok)
  have none: "expired_count now ?w1 = 0"
    by (simp add: expired_count_def rows1)
  have again: "rows (snd (cleanupExpiredTokens now ?w1)) = rows ?w1
      \<and> console (snd (cleanupExpiredTokens now ?w1)) = console ?w1"
    if "store_answers 2 w"
  proof -
    from that have "\<not> next_call_fails ?w1"
      by (simp add: store_answers_2 next_call_fails_def faults1)
    then show ?thesis by (simp add: cleanup_ok none) (simp add: rows1)
  qed
  show ?thesis using False again none by (simp add: cleanup_ok)
qed

theorem cleanupExpiredTokens_witness:
  "\<not> next_call_fails demo_world \<and> store_answers 2 demo_world \<and> next_call_fails demo_outage
   \<and> fst (cleanupExpiredTokens 2500000 demo_world) = Inr ()
   \<and> rows (snd (cleanupExpiredTokens 2500000 demo_world)) = [demo_row_op]
   \<and> console (snd (cleanupExpiredTokens 2500000 demo_world)) = [LogCleanedUp 1]
   \<and> console (snd (cleanupExpiredTokens 2500000 (snd (cleanupExpiredTokens 2500000 demo_world)))) =
       [LogCleanedUp 1]
   \<and> rows (snd (cleanupExpiredTokens 2500000 demo_outage)) = [demo_row]"
proof -
  have up: "\<not> next_call_fails demo_world" "store_answers 2 demo_world" "next_call_fails demo_outage"
    by (simp_all add: next_call_fails_def store_answers_def demo_defs)
  have n: "expired_count 2500000 demo_world = 1"
    by (simp add: expired_count_def demo_defs)
  from cleanupExpiredTokens_purges [of 2500000 demo_world]
    cleanupExpiredTokens_purges [of 2500000 demo_outage]
  show ?thesis using up n by (simp add: demo_defs)
qed

lemma create_ok:
  "\<not> next_call_fails w \<Longrightarrow> j \<notin> jti ` set (rows w) \<Longrightarrow>
   prisma_create now j (Some e) u w =
     (Inr \<lparr>jti = j, userId = u, expiresAt = e, createdAt = now\<rparr>,
      w\<lparr>faults := tl (faults w),
        rows := rows w @ [\<lparr>jti = j, userId = u, expiresAt = e, createdAt = now\<rparr>]\<rparr>)"
  using find_jti_None [of j "rows w"]
  by (simp add: prisma_create_def store_call_not_fails Let_def)

lemma create_conflict:
  "\<not> next_call_fails w \<Longrightarrow> j \<in> jti ` set (rows w) \<Longrightarrow>
   prisma_create now j (Some e) u w = (Inl UniqueConstraintFailed, w\<lparr>faults := tl (faults w)\<rparr>)"
  using find_jti_None [of j "rows w"]
  by (auto simp: prisma_create_def store_call_not_fails split: option.splits)


lemma create_fails:
  "next_call_fails w \<Longrightarrow>
   prisma_create now j (Some e) u w = (Inl ConnectionError, w\<lparr>faults := tl (faults w)\<rparr>)"
  by (simp add: prisma_create_def store_call_fails)

lemma create_invalid: "prisma_create now j None u w = (Inl ValidationError, w)"
  by (simp add: prisma_create_def)




lemma split_space_not_Nil: "split_space s \<noteq> []"
  by (induction s) auto

lemma split_space_no_space: "CHR '' '' \<notin> set t \<Longrightarrow> split_space t = [t]"
  by (induction t) auto

lemma split_space_append:
  "CHR '' '' \<notin> set a \<Longrightarrow> split_space (a @ CHR '' '' # b) = a # split_space b"
  by (induction a) auto

lemma split_space_bearer:
  "CHR '' '' \<notin> set token \<Longrightarrow> split_space (bearer token) = [''Bearer'', token]"
  using split_space_append [of "''Bearer''" token] by (simp add: split_space_no_space bearer_def)

lemma bearer_not_Nil: "bearer token \<noteq> []"
  by (simp add: bearer_def)

lemma split_space_one: "split_space s = [b] \<Longrightarrow> s = b \<and> CHR '' '' \<notin> set b"
proof (induction s arbitrary: b)
  case Nil
  then show ?case by simp
next
  case (Cons c cs)
  show ?case
  proof (cases "c = CHR '' ''")
    case True
    with Cons.prems show ?thesis by (simp add: split_space_not_Nil)
  next
    case False
    with Cons.prems have b: "b = c # hd (split_space cs)" and t: "tl (split_space cs) = []" by auto
    from t have "split_space cs = [hd (split_space cs)]"
      using split_space_not_Nil [of cs] by (cases "split_space cs") auto
    from Cons.IH [OF this] b False show ?thesis by auto
  qed
qed

lemma split_space_two:
  "split_space s = [a, b] \<Longrightarrow> s = a @ CHR '' '' # b \<and> CHR '' '' \<notin> set a \<and> CHR '' '' \<notin> set b"
proof (induction s arbitrary: a)
  case Nil
  then show ?case by simp
next
  case (Cons c cs)
  show ?case
  proof (cases "c = CHR '' ''")
    case True
    with Cons.prems have "a = []" "split_space cs = [b]" by auto
    with split_space_one [of cs b] True show ?thesis by simp
  next
    case False
    with Cons.prems have a: "a = c # hd (split_space cs)" and t: "tl (split_space cs) = [b]" by auto
    from t have "split_space cs = [hd (split_space cs), b]"
      using split_space_not_Nil [of cs] by (cases "split_space cs") auto
    from Cons.IH [OF this] a False show ?thesis by auto
  qed
qed

lemma bearer_header_iff:
  "split_space h = [''Bearer'', token] \<longleftrightarrow> h = bearer token \<and> CHR '' '' \<notin> set token"
  using split_space_two [of h "''Bearer''" token] split_space_bearer [of token]
  by (auto simp: bearer_def)

lemma blacklistToken_ok:
  "\<not> next_call_fails w \<Longrightarrow> j \<notin> jti ` set (rows w) \<Longrightarrow> new_Date (e * 1000) = Some (e * 1000) \<Longrightarrow>
   blacklistToken now j e uid w =
     (Inr (),
      w\<lparr>faults := tl (faults w),
        rows := rows w @ [\<lparr>jti = j, userId = or_null uid, expiresAt = e * 1000, createdAt = now\<rparr>],
        console := console w @ [LogTokenBlacklisted j]\<rparr>)"
  by (simp add: blacklistToken_def create_ok console_log_def)

lemma blacklistToken_conflict:
  "\<not> next_call_fails w \<Longrightarrow> j \<in> jti ` set (rows w) \<Longrightarrow> new_Date (e * 1000) = Some (e * 1000) \<Longrightarrow>
   blacklistToken now j e uid w =
     (Inl UniqueConstraintFailed,
      w\<lparr>faults := tl (faults w),
        console := console w @
          [LogStoreError ''[TokenBlacklist] Error adding token to blacklist:'' UniqueConstraintFailed]\<rparr>)"
  by (simp add: blacklistToken_def create_conflict console_log_def)

lemma blacklistToken_fails:
  "next_call_fails w \<Longrightarrow> new_Date (e * 1000) = Some (e * 1000) \<Longrightarrow>
   blacklistToken now j e uid w =
     (Inl ConnectionError,
      w\<lparr>faults := tl (faults w),
        console := console w @
          [LogStoreError ''[TokenBlacklist] Error adding token to blacklist:'' ConnectionError]\<rparr>)"
  by (simp add: blacklistToken_def create_fails console_log_def)

lemma blacklistToken_invalid:
  "new_Date (e * 1000) = None \<Longrightarrow>
   blacklistToken now j e uid w =
     (Inl ValidationError,
      w\<lparr>console := console w @
          [LogStoreError ''[TokenBlacklist] Error adding token to blacklist:'' ValidationError]\<rparr>)"
  by (simp add: blacklistToken_def create_invalid console_log_def)

lemma logout_handler_bearer:
  "CHR '' '' \<notin> set token \<Longrightarrow>
   logout_handler L now (Some (bearer token)) user w =
     (case (getTokenJti L token, getTokenExpiration L token) of
        (Some j, Some expiration) \<Rightarrow>
          (case blacklistToken now j expiration (map_option p_id user) w of
             (Inr _, w1) \<Rightarrow> (successResponse ''Logout successful'', w1)
           | (Inl error, w1) \<Rightarrow>
               (errorResponse ''Logout failed'' 500 (Some error),
                console_log (LogLogoutError error) w1))
      | _ \<Rightarrow> (successResponse ''Logout successful'', w))"
  using split_space_bearer [of token]
  by (simp add: logout_handler_def bearer_not_Nil split: option.splits)






section \<open>The guard, case by case\<close>


lemma isJtiBlacklisted_fulfilled: "\<exists>b. fst (isJtiBlacklisted now j w) = Inr b"
  by (auto simp: isJtiBlacklisted_def split: prod.split sum.split option.split)

lemma verifyToken_Inr:
  "jwt_verify L token (JWT_SECRET L) now = Inr p \<Longrightarrow> verifyToken L now token w = (Some p, w)"
  by (simp add: verifyToken_def)

lemma verifyToken_Inl:
  "jwt_verify L token (JWT_SECRET L) now = Inl e \<Longrightarrow>
   verifyToken L now token w = (None, console_log (LogJwtFailed e) w)"
  by (simp add: verifyToken_def)

lemma access_guard_missing:
  "h = None \<or> h = Some [] \<Longrightarrow>
   access_guard roles denied L now h w =
     (Rejected (errorResponse ''Missing authorization header'' 401 None), w)"
  by (auto simp: access_guard_def)

lemma access_guard_malformed:
  assumes "s \<noteq> []" and "\<forall>token. CHR '' '' \<in> set token \<or> s \<noteq> bearer token"
  shows "access_guard roles denied L now (Some s) w =
     (Rejected (errorResponse
        ''Invalid authorization header format. Expected: Bearer <token>'' 401 None), w)"
proof -
  have "split_space s \<noteq> [''Bearer'', token]" for token
    using assms(2) bearer_header_iff [of s token] by blast
  then show ?thesis using assms(1)
    by (simp add: access_guard_def split: list.split)
qed

lemma access_guard_invalid:
  assumes "CHR '' '' \<notin> set token" and "jwt_verify L token (JWT_SECRET L) now = Inl e"
  shows "access_guard roles denied L now (Some (bearer token)) w =
     (Rejected (errorResponse ''Invalid or expired token'' 401 None),
      console_log (LogJwtFailed e) w)"
  using assms
  by (simp add: access_guard_def split_space_bearer bearer_not_Nil verifyToken_Inl)

lemma access_guard_verified:
  assumes "CHR '' '' \<notin> set token" and "jwt_verify L token (JWT_SECRET L) now = Inr p"
    and "isJtiBlacklisted now (or_empty (p_jti p)) w = (Inr b, w2)"
  shows "access_guard roles denied L now (Some (bearer token)) w =
     (if b then
        (Rejected (errorResponse ''Token has been revoked. Please login again.'' 401 None), w2)
      else if p_role p = [] \<or> p_role p \<notin> set roles then
        (Rejected (errorResponse denied 403 None), w2)
      else (Admitted p, w2))"
  using assms
  by (simp add: access_guard_def split_space_bearer bearer_not_Nil verifyToken_Inr)




section \<open>The access guard under store faults\<close>






section \<open>Order of the checks\<close>



section \<open>Verification failures\<close>

text \<open>
  Claim C6. Whatever the error \<^verbatim>\<open>jwt.verify\<close> throws, \<^verbatim>\<open>verifyToken\<close> returns null, and
  both guards give the same answer (401, one fixed message) for any two failing tokens.
  The cause is written to the server's console only.
\<close>

theorem verification_failures_indistinguishable:
  assumes "jwt_verify L t1 (JWT_SECRET L) now = Inl e1"
    and "jwt_verify L t2 (JWT_SECRET L) now = Inl e2"
  shows "fst (verifyToken L now t1 w) = None \<and> fst (verifyToken L now t2 w) = None
       \<and> rows (snd (verifyToken L now t1 w)) = rows w
       \<and> (CHR '' '' \<notin> set t1 \<and> CHR '' '' \<notin> set t2 \<longrightarrow>
            fst (authMiddleware L now (Some (bearer t1)) w) =
              Rejected (errorResponse ''Invalid or expired token'' 401 None)
          \<and> fst (authMiddleware L now (Some (bearer t2)) w) =
              fst (authMiddleware L now (Some (bearer t1)) w)
          \<and> fst (requiredAdmin L now (Some (bearer t1)) w) =
              Rejected (errorResponse ''Invalid or expired token'' 401 None)
          \<and> fst (requiredAdmin L now (Some (bearer t2)) w) =
              fst (requiredAdmin L now (Some (bearer t1)) w))"
  using assms
  by (simp add: verifyToken_Inl console_log_def authMiddleware_def requiredAdmin_def
      access_guard_invalid)

theorem verification_failures_witness:
  "jwt_verify demo_jwt ''tok-admin'' (JWT_SECRET demo_jwt) 2500000 = Inl TokenExpiredError
   \<and> jwt_verify demo_jwt ''tok-forged'' (JWT_SECRET demo_jwt) 2500000 =
       Inl (JsonWebTokenError ''invalid signature'')
   \<and> CHR '' '' \<notin> set ''tok-admin'' \<and> CHR '' '' \<notin> set ''tok-forged''
   \<and> fst (verifyToken demo_jwt 2500000 ''tok-admin'' demo_world) = None
   \<and> fst (verifyToken demo_jwt 2500000 ''tok-forged'' demo_world) = None
   \<and> fst (authMiddleware demo_jwt 2500000 (Some (bearer ''tok-forged'')) demo_world) =
       fst (authMiddleware demo_jwt 2500000 (Some (bearer ''tok-admin'')) demo_world)"
proof -
  have e: "jwt_verify demo_jwt ''tok-admin'' (JWT_SECRET demo_jwt) 2500000 = Inl TokenExpiredError"
    "jwt_verify demo_jwt ''tok-forged'' (JWT_SECRET demo_jwt) 2500000 =
       Inl (JsonWebTokenError ''invalid signature'')"
    by (simp_all add: demo_jwt_def demo_claims_def demo_admin_def or_zero_def)
  have sp: "CHR '' '' \<notin> set ''tok-admin''" "CHR '' '' \<notin> set ''tok-forged''" by simp_all
  from verification_failures_indistinguishable [OF e, of demo_world]
  show ?thesis using e sp by blast
qed


section \<open>The table in reachable worlds\<close>

lemma isJtiBlacklisted_rows:
  "rows (snd (isJtiBlacklisted now j w)) = rows w
   \<or> rows (snd (isJtiBlacklisted now j w)) = filter (\<lambda>r. jti r \<noteq> j) (rows w)"
  by (auto simp: isJtiBlacklisted_def prisma_findUnique_def prisma_delete_def store_call_def
      console_log_def split: list.splits option.splits bool.splits)

lemma filter_keeps:
  assumes "[] \<notin> jti ` set rs \<and> distinct (map jti rs)"
  shows "[] \<notin> jti ` set (filter P rs) \<and> distinct (map jti (filter P rs))"
  using assms by (auto simp: distinct_map_filter)

lemma table_filtered:
  assumes "[] \<notin> jti ` set rs \<and> distinct (map jti rs)" and "\<exists>P. rs' = filter P rs"
  shows "[] \<notin> jti ` set rs' \<and> distinct (map jti rs')"
proof -
  from assms(2) obtain P where "rs' = filter P rs" by blast
  then show ?thesis using filter_keeps [OF assms(1), of P] by simp
qed

lemma verifyToken_rows: "rows (snd (verifyToken L now token w)) = rows w"
  by (simp add: verifyToken_def console_log_def split: sum.split)

lemma access_guard_rows:
  "\<exists>P. rows (snd (access_guard roles denied L now h w)) = filter P (rows w)"
proof -
  have same: "\<exists>P. rows w' = filter P (rows w)" if "rows w' = rows w" for w'
    using that by (intro exI [of _ "\<lambda>_. True"]) simp
  consider "h = None \<or> h = Some []"
    | s where "h = Some s" "s \<noteq> []" "\<forall>token. CHR '' '' \<in> set token \<or> s \<noteq> bearer token"
    | token where "h = Some (bearer token)" "CHR '' '' \<notin> set token"
    by (cases h) (auto simp: bearer_not_Nil)
  then show ?thesis
  proof cases
    case 1
    then show ?thesis by (intro same) (simp add: access_guard_missing)
  next
    case 2
    then show ?thesis by (intro same) (simp add: access_guard_malformed)
  next
    case 3
    show ?thesis
    proof (cases "jwt_verify L token (JWT_SECRET L) now")
      case (Inl e)
      with 3 show ?thesis by (intro same) (simp add: access_guard_invalid console_log_def)
    next
      case (Inr p)
      obtain b w2 where l: "isJtiBlacklisted now (or_empty (p_jti p)) w = (Inr b, w2)"
        using isJtiBlacklisted_fulfilled [of now "or_empty (p_jti p)" w]
        by (cases "isJtiBlacklisted now (or_empty (p_jti p)) w") auto
      have "rows (snd (access_guard roles denied L now h w)) = rows w2"
        using access_guard_verified [OF 3(2) Inr l, of roles denied] 3(1) by simp
      moreover have "rows w2 = rows w \<or> rows w2 = filter (\<lambda>r. jti r \<noteq> or_empty (p_jti p)) (rows w)"
        using isJtiBlacklisted_rows [of now "or_empty (p_jti p)" w] l by simp
      ultimately show ?thesis using same by auto
    qed
  qed
qed

lemma optionalAuthMiddleware_rows:
  "\<exists>P. rows (snd (optionalAuthMiddleware L now h w)) = filter P (rows w)"
proof -
  have same: "\<exists>P. rows w = filter P (rows w)"
    by (intro exI [of _ "\<lambda>_. True"]) simp
  have v: "\<exists>P. rows w1 = filter P (rows w)" if "verifyToken L now token w = (x, w1)" for token x w1
    using verifyToken_rows [of L now token w] that same by simp
  have l: "\<exists>P. rows w2 = filter P (rows w)"
    if "verifyToken L now token w = (x, w1)" "isJtiBlacklisted now j w1 = (y, w2)"
    for token x w1 j y w2
  proof -
    from that(1) have "rows w1 = rows w" using verifyToken_rows [of L now token w] by simp
    with isJtiBlacklisted_rows [of now j w1] that(2) same show ?thesis by auto
  qed
  show ?thesis
    unfolding optionalAuthMiddleware_def
    by (auto split: option.splits list.splits prod.splits sum.splits intro: same v l)
qed

lemma deleteMany_rows:
  "\<exists>Q. rows (snd (prisma_deleteMany P w)) = filter Q (rows w)"
proof (cases "next_call_fails w")
  case True
  then show ?thesis by (intro exI [of _ "\<lambda>_. True"]) (simp add: deleteMany_fails)
next
  case False
  then show ?thesis by (intro exI [of _ "\<lambda>r. \<not> P r"]) (simp add: deleteMany_ok)
qed

lemma cleanupExpiredTokens_rows:
  "\<exists>Q. rows (snd (cleanupExpiredTokens now w)) = filter Q (rows w)"
  using deleteMany_rows [of "\<lambda>r. expiresAt r < now" w]
  by (auto simp: cleanupExpiredTokens_def console_log_def split: prod.splits sum.splits)

lemma revokeUserTokens_rows:
  "\<exists>Q. rows (snd (revokeUserTokens uid w)) = filter Q (rows w)"
  using deleteMany_rows [of "\<lambda>r. userId r = Some uid" w]
  by (auto simp: revokeUserTokens_def console_log_def split: prod.splits sum.splits)

lemma clearBlacklist_rows:
  "\<exists>Q. rows (snd (clearBlacklist w)) = filter Q (rows w)"
  using deleteMany_rows [of "\<lambda>r. True" w]
  by (auto simp: clearBlacklist_def console_log_def split: prod.splits sum.splits)

lemma getTokenJti_not_empty: "getTokenJti L token = Some j \<Longrightarrow> j \<noteq> []"
  by (auto simp: getTokenJti_def split: option.splits if_splits)

lemma blacklistToken_rows:
  "rows (snd (blacklistToken now j e uid w)) = rows w
   \<or> j \<notin> jti ` set (rows w)
     \<and> rows (snd (blacklistToken now j e uid w)) =
         rows w @ [\<lparr>jti = j, userId = or_null uid, expiresAt = e * 1000, createdAt = now\<rparr>]"
proof (cases "new_Date (e * 1000)")
  case None
  then show ?thesis by (simp add: blacklistToken_invalid)
next
  case (Some t)
  then have valid: "new_Date (e * 1000) = Some (e * 1000)"
    by (simp add: new_Date_def split: if_splits)
  show ?thesis
  proof (cases "next_call_fails w")
    case True
    then show ?thesis by (simp add: blacklistToken_fails [OF _ valid])
  next
    case False
    then show ?thesis
      by (cases "j \<in> jti ` set (rows w)")
         (simp_all add: blacklistToken_ok [OF _ _ valid] blacklistToken_conflict [OF _ _ valid])
  qed
qed

lemma logout_handler_keeps:
  assumes "[] \<notin> jti ` set (rows w) \<and> distinct (map jti (rows w))"
  shows "[] \<notin> jti ` set (rows (snd (logout_handler L now h user w)))
       \<and> distinct (map jti (rows (snd (logout_handler L now h user w))))"
proof -
  have ins: "[] \<notin> jti ` set (rows w1) \<and> distinct (map jti (rows w1))"
    if "getTokenJti L token = Some j" "blacklistToken now j e uid w = (x, w1)" for token j e uid x w1
    using blacklistToken_rows [of now j e uid w] that(2) getTokenJti_not_empty [OF that(1)] assms
    by auto
  show ?thesis
    unfolding logout_handler_def Let_def
    using assms
    by (auto split: option.splits list.splits prod.splits sum.splits simp: console_log_def dest: ins)
qed

lemma reachable_table:
  "reachable w \<Longrightarrow> [] \<notin> jti ` set (rows w) \<and> distinct (map jti (rows w))"
proof (induction rule: reachable.induct)
  case (start w)
  then show ?case by simp
next
  case (environment w w')
  then show ?case by simp
next
  case (guard w roles denied L now h)
  show ?case by (rule table_filtered [OF guard.IH access_guard_rows])
next
  case (optional_guard w L now h)
  show ?case by (rule table_filtered [OF optional_guard.IH optionalAuthMiddleware_rows])
next
  case (logout w L now h)
  obtain P where P: "rows (snd (authMiddleware L now h w)) = filter P (rows w)"
    using access_guard_rows unfolding authMiddleware_def by blast
  have mid: "[] \<notin> jti ` set (rows (snd (authMiddleware L now h w)))
      \<and> distinct (map jti (rows (snd (authMiddleware L now h w))))"
    unfolding P by (rule filter_keeps [OF logout.IH])
  show ?case
  proof (cases "authMiddleware L now h w")
    case (Pair out w1)
    with mid have w1: "[] \<notin> jti ` set (rows w1) \<and> distinct (map jti (rows w1))" by simp
    show ?thesis
    proof (cases out)
      case (Rejected r)
      with Pair w1 show ?thesis by (simp add: logout_route_def)
    next
      case (Admitted p)
      with Pair logout_handler_keeps [OF w1, of L now h "Some p"]
      show ?thesis by (simp add: logout_route_def)
    qed
  qed
next
  case (cleanup w now)
  show ?case by (rule table_filtered [OF cleanup.IH cleanupExpiredTokens_rows])
next
  case (revoke_user w uid)
  show ?case by (rule table_filtered [OF revoke_user.IH revokeUserTokens_rows])
next
  case (clear w)
  show ?case by (rule table_filtered [OF clear.IH clearBlacklist_rows])
qed



lemma demo_verify:
  "jwt_verify demo_jwt ''tok-admin'' (JWT_SECRET demo_jwt) 1600000 = Inr demo_admin"
  "jwt_verify demo_jwt ''tok-op'' (JWT_SECRET demo_jwt) 1600000 = Inr demo_operator"
  "jwt_verify demo_jwt ''tok-legacy'' (JWT_SECRET demo_jwt) 1600000 = Inr demo_legacy"
  by (simp_all add: demo_jwt_def demo_claims_def demo_admin_def demo_operator_def demo_legacy_def
      or_zero_def)

lemma demo_decode:
  "decodeToken demo_jwt ''tok-admin'' = Some demo_admin"
  "decodeToken demo_jwt ''tok-op'' = Some demo_operator"
  "decodeToken demo_jwt ''tok-legacy'' = Some demo_legacy"
  by (simp_all add: decodeToken_def demo_jwt_def demo_claims_def)



section \<open>Logout\<close>

lemma access_guard_verified_rows:
  assumes "CHR '' '' \<notin> set token" and "jwt_verify L token (JWT_SECRET L) now = Inr p"
  shows "rows (snd (access_guard roles denied L now (Some (bearer token)) w)) =
     rows (snd (isJtiBlacklisted now (or_empty (p_jti p)) w))"
proof -
  obtain b w2 where l: "isJtiBlacklisted now (or_empty (p_jti p)) w = (Inr b, w2)"
    using isJtiBlacklisted_fulfilled [of now "or_empty (p_jti p)" w]
    by (cases "isJtiBlacklisted now (or_empty (p_jti p)) w") auto
  from access_guard_verified [OF assms l, of roles denied] l show ?thesis by simp
qed

lemma logout_route_admitted:
  "authMiddleware L now h w = (Admitted p, w1) \<Longrightarrow>
   logout_route L now h w = logout_handler L now h (Some p) w1"
  by (simp add: logout_route_def)

lemma demo_noexp_logouts:
  "logout_route demo_jwt_noexp 1600000 (Some (bearer ''tok-admin'')) empty_world =
     (successResponse ''Logout successful'',
      \<lparr>rows = [\<lparr>jti = ''jti-admin'', userId = Some ''u1'', expiresAt = 2000000, createdAt = 1600000\<rparr>],
       faults = [], console = [LogTokenBlacklisted ''jti-admin'']\<rparr>)"
  "logout_route demo_jwt_noexp 2500000 (Some (bearer ''tok-noexp''))
     \<lparr>rows = [\<lparr>jti = ''jti-admin'', userId = Some ''u1'', expiresAt = 2000000, createdAt = 1600000\<rparr>],
      faults = [], console = [LogTokenBlacklisted ''jti-admin'']\<rparr> =
     (successResponse ''Logout successful'',
      \<lparr>rows = [], faults = [], console = [LogTokenBlacklisted ''jti-admin'']\<rparr>)"
proof -
  let ?w1 = "\<lparr>rows = [\<lparr>jti = ''jti-admin'', userId = Some ''u1'', expiresAt = 2000000,
                createdAt = 1600000\<rparr>],
              faults = [], console = [LogTokenBlacklisted ''jti-admin'']\<rparr>"
  have sp: "CHR '' '' \<notin> set ''tok-admin''" "CHR '' '' \<notin> set ''tok-noexp''" by simp_all
  have v1: "jwt_verify demo_jwt_noexp ''tok-admin'' (JWT_SECRET demo_jwt_noexp) 1600000 = Inr demo_admin"
    by (simp add: demo_jwt_noexp_def demo_jwt_def demo_claims_def demo_admin_def or_zero_def)
  have v2: "jwt_verify demo_jwt_noexp ''tok-noexp'' (JWT_SECRET demo_jwt_noexp) 2500000 = Inr demo_noexp"
    by (simp add: demo_jwt_noexp_def demo_jwt_def)
  have j: "or_empty (p_jti demo_admin) = ''jti-admin''" "or_empty (p_jti demo_noexp) = ''jti-admin''"
    by (simp_all add: or_empty_def demo_admin_def demo_noexp_def)
  have "isJtiBlacklisted 1600000 (or_empty (p_jti demo_admin)) empty_world = (Inr False, empty_world)"
    by (simp add: j isJtiBlacklisted_def prisma_findUnique_def store_call_def empty_world_def)
  from access_guard_verified [OF sp(1) v1 this]
  have admitted1: "authMiddleware demo_jwt_noexp 1600000 (Some (bearer ''tok-admin'')) empty_world =
      (Admitted demo_admin, empty_world)"
    by (simp add: authMiddleware_def demo_admin_def)
  have get1: "getTokenJti demo_jwt_noexp ''tok-admin'' = Some ''jti-admin''"
    "getTokenExpiration demo_jwt_noexp ''tok-admin'' = Some 2000"
    by (simp_all add: getTokenJti_def getTokenExpiration_def decodeToken_def demo_jwt_noexp_def
        demo_jwt_def demo_claims_def demo_admin_def)
  have up: "\<not> next_call_fails empty_world" by (simp add: next_call_fails_def empty_world_def)
  have "''jti-admin'' \<notin> jti ` set (rows empty_world)" by (simp add: empty_world_def)
  from blacklistToken_ok [OF up this, of 2000 1600000 "Some ''u1''"]
  have bl: "blacklistToken 1600000 ''jti-admin'' 2000 (Some ''u1'') empty_world = (Inr (), ?w1)"
    by (simp add: or_null_def empty_world_def new_Date_def)
  have uid: "p_id demo_admin = ''u1''" by (simp add: demo_admin_def)
  show "logout_route demo_jwt_noexp 1600000 (Some (bearer ''tok-admin'')) empty_world =
      (successResponse ''Logout successful'', ?w1)"
    by (simp add: logout_route_admitted [OF admitted1] logout_handler_bearer [OF sp(1)] get1 uid bl)
  have "isJtiBlacklisted 2500000 (or_empty (p_jti demo_noexp)) ?w1 =
      (Inr False, \<lparr>rows = [], faults = [], console = [LogTokenBlacklisted ''jti-admin'']\<rparr>)"
    by (simp add: j isJtiBlacklisted_def prisma_findUnique_def prisma_delete_def store_call_def)
  from access_guard_verified [OF sp(2) v2 this]
  have admitted2: "authMiddleware demo_jwt_noexp 2500000 (Some (bearer ''tok-noexp'')) ?w1 =
      (Admitted demo_noexp, \<lparr>rows = [], faults = [], console = [LogTokenBlacklisted ''jti-admin'']\<rparr>)"
    by (simp add: authMiddleware_def demo_noexp_def)
  have get2: "getTokenExpiration demo_jwt_noexp ''tok-noexp'' = None"
    by (simp add: getTokenExpiration_def decodeToken_def demo_jwt_noexp_def demo_noexp_def)
  show "logout_route demo_jwt_noexp 2500000 (Some (bearer ''tok-noexp'')) ?w1 =
      (successResponse ''Logout successful'',
       \<lparr>rows = [], faults = [], console = [LogTokenBlacklisted ''jti-admin'']\<rparr>)"
    by (simp add: logout_route_admitted [OF admitted2] logout_handler_bearer [OF sp(2)] get2
        split: option.splits)
qed

text \<open>
  Claim C10 as stated fails: in a reachable world, a request to \<^verbatim>\<open>POST /logout\<close> with a
  token that has no \<^verbatim>\<open>exp\<close> is answered \<^verbatim>\<open>Logout successful\<close> and the table loses a row:
  the guard in front of the handler looks the identifier up and deletes its expired row.
\<close>

theorem logout_without_exp_deletes_expired_row:
  "reachable (snd (logout_route demo_jwt_noexp 1600000 (Some (bearer ''tok-admin'')) empty_world))
   \<and> decodeToken demo_jwt_noexp ''tok-noexp'' = Some demo_noexp \<and> p_exp demo_noexp = None
   \<and> rows (snd (logout_route demo_jwt_noexp 1600000 (Some (bearer ''tok-admin'')) empty_world)) =
       [\<lparr>jti = ''jti-admin'', userId = Some ''u1'', expiresAt = 2000000, createdAt = 1600000\<rparr>]
   \<and> fst (logout_route demo_jwt_noexp 2500000 (Some (bearer ''tok-noexp''))
          (snd (logout_route demo_jwt_noexp 1600000 (Some (bearer ''tok-admin'')) empty_world))) =
       successResponse ''Logout successful''
   \<and> rows (snd (logout_route demo_jwt_noexp 2500000 (Some (bearer ''tok-noexp''))
          (snd (logout_route demo_jwt_noexp 1600000 (Some (bearer ''tok-admin'')) empty_world)))) = []"
proof -
  have reach: "reachable (snd (logout_route demo_jwt_noexp 1600000 (Some (bearer ''tok-admin''))
      empty_world))"
    by (rule reachable.logout, rule reachable.start) (simp add: empty_world_def)
  have dec: "decodeToken demo_jwt_noexp ''tok-noexp'' = Some demo_noexp"
    by (simp add: decodeToken_def demo_jwt_noexp_def)
  have ne: "p_exp demo_noexp = None" by (simp add: demo_noexp_def)
  from reach dec ne show ?thesis by (simp add: demo_noexp_logouts)
qed

text \<open>
  Claim C10, amended. When the decoded token has no \<^verbatim>\<open>jti\<close> or no \<^verbatim>\<open>exp\<close>, the logout
  handler skips the insert, answers \<^verbatim>\<open>Logout successful\<close> and leaves the world as it found
  it, so the request ends in the world the guard left and is answered with success
  whenever the guard admits it. The table changes during the request only through the
  guard's lookup of the verified token's identifier, which deletes a row of that
  identifier that has expired; in a reachable world a verified token without \<^verbatim>\<open>jti\<close>
  leaves the table unchanged, and so does a token that fails verification.
\<close>

theorem logout_without_jti_or_exp:
  assumes token: "CHR '' '' \<notin> set token"
    and decoded: "decodeToken L token = Some d"
    and lacks: "p_jti d = None \<or> p_exp d = None"
  shows "logout_handler L now (Some (bearer token)) user w = (successResponse ''Logout successful'', w)
       \<and> snd (logout_route L now (Some (bearer token)) w) =
           snd (authMiddleware L now (Some (bearer token)) w)
       \<and> (\<forall>p. fst (authMiddleware L now (Some (bearer token)) w) = Admitted p \<longrightarrow>
            fst (logout_route L now (Some (bearer token)) w) = successResponse ''Logout successful'')
       \<and> (\<forall>p. jwt_verify L token (JWT_SECRET L) now = Inr p \<longrightarrow>
            rows (snd (logout_route L now (Some (bearer token)) w)) =
              rows (snd (isJtiBlacklisted now (or_empty (p_jti p)) w))
          \<and> (rows (snd (logout_route L now (Some (bearer token)) w)) = rows w
             \<or> rows (snd (logout_route L now (Some (bearer token)) w)) =
                 filter (\<lambda>r. jti r \<noteq> or_empty (p_jti p)) (rows w))
          \<and> (reachable w \<and> p_jti p = None \<longrightarrow>
               rows (snd (logout_route L now (Some (bearer token)) w)) = rows w))
       \<and> (\<forall>e. jwt_verify L token (JWT_SECRET L) now = Inl e \<longrightarrow>
            rows (snd (logout_route L now (Some (bearer token)) w)) = rows w)"
proof -
  from decoded lacks have "getTokenJti L token = None \<or> getTokenExpiration L token = None"
    by (auto simp: getTokenJti_def getTokenExpiration_def)
  then have handler: "logout_handler L now (Some (bearer token)) user w =
      (successResponse ''Logout successful'', w)" for user w
    by (auto simp: logout_handler_bearer [OF token] split: option.splits)
  have route: "snd (logout_route L now (Some (bearer token)) w) =
      snd (authMiddleware L now (Some (bearer token)) w)"
    and admitted: "\<forall>p. fst (authMiddleware L now (Some (bearer token)) w) = Admitted p \<longrightarrow>
      fst (logout_route L now (Some (bearer token)) w) = successResponse ''Logout successful''"
    by (cases "authMiddleware L now (Some (bearer token)) w";
        cases "fst (authMiddleware L now (Some (bearer token)) w)";
        simp add: handler logout_route_def)+
  have verified: "rows (snd (logout_route L now (Some (bearer token)) w)) =
        rows (snd (isJtiBlacklisted now (or_empty (p_jti p)) w))
      \<and> (rows (snd (logout_route L now (Some (bearer token)) w)) = rows w
         \<or> rows (snd (logout_route L now (Some (bearer token)) w)) =
             filter (\<lambda>r. jti r \<noteq> or_empty (p_jti p)) (rows w))
      \<and> (reachable w \<and> p_jti p = None \<longrightarrow>
           rows (snd (logout_route L now (Some (bearer token)) w)) = rows w)"
    if v: "jwt_verify L token (JWT_SECRET L) now = Inr p" for p
  proof -
    have eq: "rows (snd (logout_route L now (Some (bearer token)) w)) =
        rows (snd (isJtiBlacklisted now (or_empty (p_jti p)) w))"
      unfolding route authMiddleware_def by (rule access_guard_verified_rows [OF token v])
    have "rows (snd (isJtiBlacklisted now (or_empty (p_jti p)) w)) = rows w"
      if "reachable w" "p_jti p = None"
    proof -
      from reachable_table [OF that(1)] have "[] \<notin> jti ` set (rows w)" by simp
      from isJtiBlacklisted_absent [OF this, of now] that(2) show ?thesis
        by (simp add: or_empty_def)
    qed
    with eq isJtiBlacklisted_rows [of now "or_empty (p_jti p)" w] show ?thesis by auto
  qed
  have invalid: "rows (snd (logout_route L now (Some (bearer token)) w)) = rows w"
    if "jwt_verify L token (JWT_SECRET L) now = Inl e" for e
    unfolding route authMiddleware_def
    by (simp add: access_guard_invalid [OF token that] console_log_def)
  from handler route admitted verified invalid show ?thesis by blast
qed

theorem logout_without_jti_witness:
  "CHR '' '' \<notin> set ''tok-legacy'' \<and> decodeToken demo_jwt ''tok-legacy'' = Some demo_legacy
   \<and> p_jti demo_legacy = None
   \<and> jwt_verify demo_jwt ''tok-legacy'' (JWT_SECRET demo_jwt) 1600000 = Inr demo_legacy
   \<and> reachable (snd (logout_route demo_jwt 1600000 (Some (bearer ''tok-op'')) empty_world))
   \<and> logout_handler demo_jwt 1600000 (Some (bearer ''tok-legacy'')) (Some demo_legacy)
       (snd (logout_route demo_jwt 1600000 (Some (bearer ''tok-op'')) empty_world)) =
       (successResponse ''Logout successful'',
        snd (logout_route demo_jwt 1600000 (Some (bearer ''tok-op'')) empty_world))
   \<and> rows (snd (logout_route demo_jwt 1600000 (Some (bearer ''tok-legacy''))
       (snd (logout_route demo_jwt 1600000 (Some (bearer ''tok-op'')) empty_world)))) =
       rows (snd (logout_route demo_jwt 1600000 (Some (bearer ''tok-op'')) empty_world))"
proof -
  let ?w = "snd (logout_route demo_jwt 1600000 (Some (bearer ''tok-op'')) empty_world)"
  have sp: "CHR '' '' \<notin> set ''tok-legacy''" by simp
  have nj: "p_jti demo_legacy = None" by (simp add: demo_legacy_def)
  have reach: "reachable ?w"
    by (rule reachable.logout, rule reachable.start) (simp add: empty_world_def)
  note t = logout_without_jti_or_exp [OF sp demo_decode(3) disjI1 [OF nj],
      of 1600000 "Some demo_legacy" ?w]
  from t have h: "logout_handler demo_jwt 1600000 (Some (bearer ''tok-legacy'')) (Some demo_legacy) ?w =
      (successResponse ''Logout successful'', ?w)"
    by (rule conjunct1)
  from t demo_verify(3) reach nj
  have r: "rows (snd (logout_route demo_jwt 1600000 (Some (bearer ''tok-legacy'')) ?w)) = rows ?w"
    by blast
  from sp demo_decode(3) nj demo_verify(3) reach h r show ?thesis by (intro conjI)
qed




section \<open>Issue, then verify\<close>


lemma split_on_not_Nil: "split_on d s \<noteq> []"
  by (induction s) auto













lemma untag_tag: "untag (tag x) = x"
  by (simp add: untag_def tag_def split: option.splits)

lemma count_strokes_strokes: "count_strokes (strokes i) = i"
  by (simp add: count_strokes_def strokes_def)

lemma untag_strokes: "map_option count_strokes (untag (tag (map_option strokes x))) = x"
  by (cases x) (simp_all add: untag_tag count_strokes_strokes)










end
